theory Spec2Isabelle
  imports Main
begin

section \<open>Build and push orchestration against an image daemon\<close>

text \<open>
  A shallow embedding of \<^verbatim>\<open>pkg/skaffold/docker/image.go\<close>: \<^verbatim>\<open>RunBuild\<close>,
  \<^verbatim>\<open>streamDockerMessages\<close>, \<^verbatim>\<open>RunPush\<close> and \<^verbatim>\<open>Digest\<close>. The functions
  orchestrate collaborators that live outside the file (the credential helper, the
  Dockerfile dependency parser, the archiver, the daemon client). Each collaborator is a
  field of the record \<open>world\<close>; every call the Go code makes to one of them is appended
  to a log of events, so that "no daemon call was made" is a statement about the log.
\<close>

subsection \<open>Errors\<close>

text \<open>
  A Go \<^verbatim>\<open>error\<close> value that is not nil. \<open>Err\<close> is an error produced by a collaborator,
  \<open>JSONError\<close> the error carried by a daemon status event, \<open>WithMessage\<close> the result of
  \<^verbatim>\<open>errors.Wrap(err, message)\<close>. A nil error is \<open>None\<close> in \<open>error option\<close>.
\<close>

datatype error = Err string | JSONError string | WithMessage error string

text \<open>\<^verbatim>\<open>errors.Wrap\<close> and \<^verbatim>\<open>errors.Wrapf\<close>, called by the source on non-nil errors only.\<close>

definition errors_Wrap :: "error \<Rightarrow> string \<Rightarrow> error" where
  "errors_Wrap err message = WithMessage err message"

text \<open>The text of \<^verbatim>\<open>Error()\<close>: a wrapped error prints its message, a colon, and its cause.\<close>

fun Error :: "error \<Rightarrow> string" where
  "Error (Err s) = s"
| "Error (JSONError s) = s"
| "Error (WithMessage err message) = message @ '': '' @ Error err"

text \<open>\<^verbatim>\<open>errors.Cause\<close>: the innermost error under the wrapping.\<close>

fun Cause :: "error \<Rightarrow> error" where
  "Cause (WithMessage err message) = Cause err"
| "Cause e = e"

subsection \<open>Strings\<close>

text \<open>\<^verbatim>\<open>strings.HasPrefix\<close> and \<^verbatim>\<open>strings.TrimPrefix\<close> of the Go standard library.\<close>

definition HasPrefix :: "string \<Rightarrow> string \<Rightarrow> bool" where
  "HasPrefix s prefix = (length prefix \<le> length s \<and> take (length prefix) s = prefix)"

definition TrimPrefix :: "string \<Rightarrow> string \<Rightarrow> string" where
  "TrimPrefix s prefix = (if HasPrefix s prefix then drop (length prefix) s else s)"

subsection \<open>Data of the daemon API\<close>

text \<open>An \<^verbatim>\<open>io.Writer\<close> is known by its identity; two options may name the same writer.\<close>

type_synonym writer = nat

text \<open>The handle returned by \<^verbatim>\<open>os.Open\<close>, read by the dependency parser: the file's text.\<close>

type_synonym os_File = string

datatype AuthConfig = UserPassword string string | IdentityToken string

record IDPair =
  UID :: int
  GID :: int

text \<open>The two fields of \<^verbatim>\<open>archive.TarOptions\<close> that the source sets; the others keep
  their zero value.\<close>

record TarOptions =
  ChownOpts :: "IDPair option"
  IncludeFiles :: "string list"

text \<open>What an archive holds of each entry: its name inside the archive and its owner.\<close>

record TarEntry =
  Name :: string
  Uid :: int
  Gid :: int

type_synonym archive = "TarEntry list"

text \<open>\<^verbatim>\<open>types.ImageBuildOptions\<close>, the four fields the source sets. \<^verbatim>\<open>BuildArgs\<close> is a Go
  \<^verbatim>\<open>map[string]*string\<close>: a nil pointer is the value \<open>None\<close>.\<close>

record ImageBuildOptions =
  Tags :: "string list"
  ibo_Dockerfile :: string
  ibo_BuildArgs :: "string \<rightharpoonup> string option"
  AuthConfigs :: "string \<rightharpoonup> AuthConfig"

record ImagePushOptions =
  RegistryAuth :: string

text \<open>\<^verbatim>\<open>filters.NewArgs\<close> of key and value pairs.\<close>

record ImageListOptions =
  Filters :: "(string \<times> string) list"

record ImageSummary =
  ID :: string
  RepoTags :: "string list"

text \<open>One decoded message of the daemon's stream: a progress update, tagged with a stream
  id and a text, or a terminal error with its message.\<close>

datatype JSONMessage = Progress string string | ErrorMessage string

record BuildOptions =
  ImageName :: string
  Dockerfile :: string
  ContextDir :: string
  ProgressBuf :: writer
  BuildBuf :: writer
  BuildArgs :: "string \<rightharpoonup> string option"

subsection \<open>Collaborators and the log of calls\<close>

text \<open>
  The collaborators of the file. A Go function returning \<^verbatim>\<open>(T, error)\<close> whose error the
  source checks before it reads the value is a function to \<open>error + T\<close>.
  \<^verbatim>\<open>GetDockerfileDependencies\<close> returns the pair itself, since the source reads the
  paths whatever the error is. \<open>filepath_Join\<close> is \<^verbatim>\<open>filepath.Join\<close>; \<open>Display\<close> is
  the text that the daemon client's renderer writes for one progress message.
\<close>

record world =
  GetAllAuthConfigs :: "error + (string \<rightharpoonup> AuthConfig)"
  filepath_Join :: "string \<Rightarrow> string \<Rightarrow> string"
  os_Open :: "string \<Rightarrow> error + os_File"
  GetDockerfileDependencies :: "string \<Rightarrow> os_File \<Rightarrow> string list \<times> error option"
  TarWithOptions :: "string \<Rightarrow> TarOptions \<Rightarrow> error + archive"
  ImageBuild :: "archive \<Rightarrow> ImageBuildOptions \<Rightarrow> error + JSONMessage list"
  encodedRegistryAuth :: "string \<Rightarrow> error + string"
  ImagePush :: "string \<Rightarrow> ImagePushOptions \<Rightarrow> error + JSONMessage list"
  ImageList :: "ImageListOptions \<Rightarrow> error + ImageSummary list"
  Display :: "JSONMessage \<Rightarrow> string"

datatype event =
    AuthConfigsCall
  | OpenCall string
  | DependenciesCall string os_File
  | TarCall string TarOptions
  | ImageBuildCall archive ImageBuildOptions
  | RegistryAuthCall string
  | ImagePushCall string ImagePushOptions
  | ImageListCall ImageListOptions
  | Write writer string
  | CloseBody

subsection \<open>Digest\<close>

text \<open>The inner loop of \<^verbatim>\<open>Digest\<close>: does one of the tags equal \<open>refLatest\<close>?\<close>

fun matchTag :: "string list \<Rightarrow> string \<Rightarrow> bool" where
  "matchTag [] refLatest = False"
| "matchTag (tag # tags) refLatest = (if tag = refLatest then True else matchTag tags refLatest)"

text \<open>The outer loop: the identifier of the first image with a matching tag, if any.\<close>

fun scanImages :: "ImageSummary list \<Rightarrow> string \<Rightarrow> string option" where
  "scanImages [] refLatest = None"
| "scanImages (img # imageList) refLatest =
     (if matchTag (RepoTags img) refLatest then Some (ID img)
      else scanImages imageList refLatest)"

text \<open>\<^verbatim>\<open>Digest\<close> returns the Go pair \<^verbatim>\<open>(string, error)\<close> and the log of its calls.\<close>

definition Digest :: "world \<Rightarrow> string \<Rightarrow> (string \<times> error option) \<times> event list" where
  "Digest w ref =
     (let refLatest = ref @ '':latest'';
          filters = \<lparr>Filters = [(''reference'', refLatest)]\<rparr>
      in case ImageList w filters of
           Inl err \<Rightarrow> (([], Some (errors_Wrap err ''getting image id'')), [ImageListCall filters])
         | Inr imageList \<Rightarrow>
             (case scanImages imageList refLatest of
                Some ident \<Rightarrow> ((ident, None), [ImageListCall filters])
              | None \<Rightarrow> (([], None), [ImageListCall filters])))"

subsection \<open>The relay of daemon messages\<close>

text \<open>
  Modelled from the spec: \<^verbatim>\<open>jsonmessage.DisplayJSONMessagesStream\<close>, the relay of the
  daemon client library, is called by the source and is not part of it. Following the
  spec's section 4.4, the relay consumes the messages in arrival order and writes each
  progress update to the sink; at a terminal error message it stops consuming and returns
  that error; the end of the stream without an error message is success.
\<close>

fun DisplayJSONMessagesStream ::
  "(JSONMessage \<Rightarrow> string) \<Rightarrow> JSONMessage list \<Rightarrow> writer \<Rightarrow> error option \<times> event list" where
  "DisplayJSONMessagesStream display [] out = (None, [])"
| "DisplayJSONMessagesStream display (ErrorMessage m # src) out = (Some (JSONError m), [])"
| "DisplayJSONMessagesStream display (Progress i t # src) out =
     (let (err, log) = DisplayJSONMessagesStream display src out
      in (err, Write out (display (Progress i t)) # log))"

text \<open>\<^verbatim>\<open>streamDockerMessages\<close> asks for the sink's file descriptor, drops the answer to
  "is it a terminal", and hands source and sink to the relay with the terminal flag false.\<close>

definition streamDockerMessages ::
  "world \<Rightarrow> writer \<Rightarrow> JSONMessage list \<Rightarrow> error option \<times> event list" where
  "streamDockerMessages w dst src = DisplayJSONMessagesStream (Display w) src dst"

subsection \<open>RunBuild\<close>

text \<open>
  \<^verbatim>\<open>RunBuild\<close> returns its error (\<open>None\<close> for nil) and the log of its calls, in the
  order the source makes them. The error that \<^verbatim>\<open>GetDockerfileDependencies\<close> returns is
  bound to \<open>err\<close> and never read: the next assignment to \<^verbatim>\<open>err\<close> is the archiver's.
  The loop over \<^verbatim>\<open>paths\<close> rewrites every element in place and is the \<open>map\<close> below.
  The progress reader wrapped around the archive passes its bytes on unchanged, so the
  body given to the daemon is the archive; what it reports to \<^verbatim>\<open>ProgressBuf\<close> is
  written while the daemon client reads the body, inside that client, and is not an event
  of this log. The debug line that \<^verbatim>\<open>RunBuild\<close> logs first is left out. The deferred
  \<^verbatim>\<open>Close\<close> of the response body is the last event of a run that reached the relay.
\<close>

definition RunBuild :: "world \<Rightarrow> BuildOptions \<Rightarrow> error option \<times> event list" where
  "RunBuild w opts =
     (case GetAllAuthConfigs w of
        Inl err \<Rightarrow> (Some (errors_Wrap err ''read auth configs''), [AuthConfigsCall])
      | Inr authConfigs \<Rightarrow>
          (let imageBuildOpts =
                 \<lparr>Tags = [ImageName opts], ibo_Dockerfile = Dockerfile opts,
                  ibo_BuildArgs = BuildArgs opts, AuthConfigs = authConfigs\<rparr>;
               dockerfilePath = filepath_Join w (ContextDir opts) (Dockerfile opts)
           in case os_Open w dockerfilePath of
                Inl err \<Rightarrow>
                  (Some (errors_Wrap err ''opening dockerfile''),
                   [AuthConfigsCall, OpenCall dockerfilePath])
              | Inr f \<Rightarrow>
                  (let (paths, err) = GetDockerfileDependencies w (ContextDir opts) f;
                       paths = map (\<lambda>path. TrimPrefix path (ContextDir opts)) paths;
                       tarOpts = \<lparr>ChownOpts = Some \<lparr>UID = 0, GID = 0\<rparr>,
                                  IncludeFiles = paths @ [Dockerfile opts]\<rparr>;
                       log = [AuthConfigsCall, OpenCall dockerfilePath,
                              DependenciesCall (ContextDir opts) f,
                              TarCall (ContextDir opts) tarOpts]
                   in case TarWithOptions w (ContextDir opts) tarOpts of
                        Inl err \<Rightarrow> (Some (errors_Wrap err ''tar workspace''), log)
                      | Inr buildCtx \<Rightarrow>
                          (case ImageBuild w buildCtx imageBuildOpts of
                             Inl err \<Rightarrow>
                               (Some (errors_Wrap err ''docker build''),
                                log @ [ImageBuildCall buildCtx imageBuildOpts])
                           | Inr body \<Rightarrow>
                               (let (err, written) = streamDockerMessages w (BuildBuf opts) body
                                in (err, log @ [ImageBuildCall buildCtx imageBuildOpts]
                                           @ written @ [CloseBody]))))))"

subsection \<open>RunPush\<close>

definition RunPush :: "world \<Rightarrow> string \<Rightarrow> writer \<Rightarrow> error option \<times> event list" where
  "RunPush w ref out =
     (case encodedRegistryAuth w ref of
        Inl err \<Rightarrow>
          (Some (errors_Wrap err (''getting auth config for '' @ ref)), [RegistryAuthCall ref])
      | Inr registryAuth \<Rightarrow>
          (let pushOpts = \<lparr>RegistryAuth = registryAuth\<rparr>;
               log = [RegistryAuthCall ref, ImagePushCall ref pushOpts]
           in case ImagePush w ref pushOpts of
                Inl err \<Rightarrow> (Some (errors_Wrap err ''pushing image to repository''), log)
              | Inr rc \<Rightarrow>
                  (let (err, written) = streamDockerMessages w out rc
                   in (err, log @ written @ [CloseBody]))))"

subsection \<open>Reading the log\<close>

text \<open>Whether an event is a build or a push request to the daemon.\<close>

fun isDaemonCall :: "event \<Rightarrow> bool" where
  "isDaemonCall (ImageBuildCall body options) = True"
| "isDaemonCall (ImagePushCall ref options) = True"
| "isDaemonCall e = False"

text \<open>The texts written to one writer, in order.\<close>

fun written_to :: "writer \<Rightarrow> event list \<Rightarrow> string list" where
  "written_to out [] = []"
| "written_to out (Write dst t # log) =
     (if dst = out then t # written_to out log else written_to out log)"
| "written_to out (e # log) = written_to out log"


text \<open>A run of progress messages, given by their stream ids and texts.\<close>

fun progress :: "(string \<times> string) list \<Rightarrow> JSONMessage list" where
  "progress [] = []"
| "progress ((i, t) # ps) = Progress i t # progress ps"

subsection \<open>Collaborators for the examples\<close>

text \<open>
  Concrete collaborators, used where a theorem is applied to a concrete run. The archiver
  \<open>walkArchiver files\<close> works over a file system that holds the paths \<open>files\<close>: it walks
  the include list under the source path, skips an include that does not exist there,
  gives every entry the requested owner (the host's 1000 when none is requested), and
  reports no error.
\<close>

definition walkArchiver :: "string list \<Rightarrow> string \<Rightarrow> TarOptions \<Rightarrow> error + archive" where
  "walkArchiver files srcPath options =
     (let owner = (case ChownOpts options of Some ids \<Rightarrow> ids | None \<Rightarrow> \<lparr>UID = 1000, GID = 1000\<rparr>)
      in Inr (map (\<lambda>include. \<lparr>Name = include, Uid = UID owner, Gid = GID owner\<rparr>)
                (filter (\<lambda>include. srcPath @ ''/'' @ TrimPrefix include ''/'' \<in> set files)
                   (IncludeFiles options))))"

definition sample_images :: "ImageSummary list" where
  "sample_images =
     [\<lparr>ID = ''sha256:1111'', RepoTags = [''other:latest'', ''myimage:v1'']\<rparr>,
      \<lparr>ID = ''sha256:2222'', RepoTags = [''myimage:v2'', ''myimage:latest'']\<rparr>,
      \<lparr>ID = ''sha256:3333'', RepoTags = [''myimage:latest'']\<rparr>]"

definition sample_world :: world where
  "sample_world =
     \<lparr>GetAllAuthConfigs = Inr [''gcr.io'' \<mapsto> IdentityToken ''t0''],
      filepath_Join = (\<lambda>dir name. dir @ ''/'' @ name),
      os_Open = (\<lambda>name. if name = ''/ctx/Dockerfile'' then Inr ''FROM scratch''
                         else Inl (Err ''no such file'')),
      GetDockerfileDependencies = (\<lambda>dir f. ([''/ctx/main.go''], None)),
      TarWithOptions = walkArchiver [''/ctx/Dockerfile'', ''/ctx/main.go''],
      ImageBuild = (\<lambda>body options. Inr [Progress ''1'' ''Step 1/1 : FROM scratch'',
                                          Progress ''2'' ''Successfully built'']),
      encodedRegistryAuth = (\<lambda>ref. Inr ''e30=''),
      ImagePush = (\<lambda>ref options. Inr [Progress ''1'' ''Pushed'']),
      ImageList = (\<lambda>options. Inr sample_images),
      Display = (\<lambda>m. case m of Progress i t \<Rightarrow> t | ErrorMessage e \<Rightarrow> e)\<rparr>"

definition sample_opts :: BuildOptions where
  "sample_opts =
     \<lparr>ImageName = ''myimage'', Dockerfile = ''Dockerfile'', ContextDir = ''/ctx'',
      ProgressBuf = 1, BuildBuf = 2,
      BuildArgs = [''VERSION'' \<mapsto> Some ''1'', ''HTTP_PROXY'' \<mapsto> None]\<rparr>"

text \<open>A daemon whose build and push streams carry a terminal error after some progress.\<close>

definition failing_world :: world where
  "failing_world =
     sample_world
       \<lparr>ImageBuild := \<lambda>body options.
          Inr (progress [(''1'', ''Step 1/2 : FROM scratch''), (''2'', ''Step 2/2 : COPY main.go /'')]
               @ ErrorMessage ''COPY failed'' # [Progress ''3'' ''Successfully built'']),
        ImagePush := \<lambda>ref options.
          Inr (progress [(''1'', ''Preparing'')]
               @ ErrorMessage ''unauthorized'' # [Progress ''2'' ''Pushed''])\<rparr>"

text \<open>A dependency parser that fails, returning no paths and an error.\<close>

definition unparsed_world :: world where
  "unparsed_world =
     sample_world\<lparr>GetDockerfileDependencies := \<lambda>dir f. ([], Some (Err ''dockerfile parse error''))\<rparr>"

text \<open>A parser that lists a path outside the context directory \<^verbatim>\<open>/ctx\<close>; the file exists
  on the host.\<close>

definition outside_world :: world where
  "outside_world =
     sample_world
       \<lparr>GetDockerfileDependencies := \<lambda>dir f. ([''/etc/passwd''], None),
        TarWithOptions := walkArchiver [''/ctx/Dockerfile'', ''/etc/passwd'']\<rparr>"


text \<open>An archiver that returns an error.\<close>

definition tarless_world :: world where
  "tarless_world =
     sample_world\<lparr>TarWithOptions := \<lambda>srcPath options. Inl (Err ''illegal exclusion pattern'')\<rparr>"

section \<open>Properties\<close>

subsection \<open>The loops of Digest\<close>

lemma matchTag_iff: "matchTag tags refLatest = (refLatest \<in> set tags)"
  by (induction tags) auto

lemma scanImages_find:
  "scanImages imageList refLatest =
     map_option ID (List.find (\<lambda>img. refLatest \<in> set (RepoTags img)) imageList)"
  by (induction imageList) (simp_all add: matchTag_iff)

lemma Digest_result:
  "ImageList w \<lparr>Filters = [(''reference'', ref @ '':latest'')]\<rparr> = Inr imageList \<Longrightarrow>
   fst (Digest w ref) =
     (case List.find (\<lambda>img. ref @ '':latest'' \<in> set (RepoTags img)) imageList of
        Some img \<Rightarrow> (ID img, None) | None \<Rightarrow> ([], None))"
  by (simp add: Digest_def scanImages_find split: option.splits)



subsection \<open>The relay and the log\<close>

lemma relay_log_writes:
  "e \<in> set (snd (DisplayJSONMessagesStream display src out)) \<Longrightarrow> \<exists>t. e = Write out t"
  by (induction display src out rule: DisplayJSONMessagesStream.induct)
     (auto split: prod.splits)

lemma relay_no_daemon_call:
  "filter isDaemonCall (snd (DisplayJSONMessagesStream display src out)) = []"
  by (auto simp: filter_empty_conv dest: relay_log_writes)


lemma relay_not_build_call:
  "ImageBuildCall body options \<notin> set (snd (DisplayJSONMessagesStream display src out))"
  by (auto dest: relay_log_writes)

lemma relay_not_push_call:
  "ImagePushCall ref options \<notin> set (snd (DisplayJSONMessagesStream display src out))"
  by (auto dest: relay_log_writes)

lemma relay_error:
  "DisplayJSONMessagesStream display (progress ps @ ErrorMessage m # rest) out =
     (Some (JSONError m), map (\<lambda>p. Write out (display p)) (progress ps))"
  by (induction ps rule: progress.induct) simp_all

lemma written_to_append:
  "written_to out (xs @ ys) = written_to out xs @ written_to out ys"
  by (induction out xs rule: written_to.induct) simp_all

lemma written_to_writes:
  "written_to out (map (\<lambda>p. Write out (display p)) ms) = map display ms"
  by (induction ms) simp_all

subsection \<open>TrimPrefix\<close>


lemma TrimPrefix_other: "\<not> HasPrefix s prefix \<Longrightarrow> TrimPrefix s prefix = s"
  by (simp add: TrimPrefix_def)

subsection \<open>The runs of RunBuild and RunPush\<close>

text \<open>A run whose log holds a request to the daemon ends as the daemon's answer to that
  request decides; nothing was written to the sink before the request.\<close>

lemma RunBuild_ImageBuildCall:
  assumes "ImageBuildCall body options \<in> set (snd (RunBuild w opts))"
  shows "\<exists>pre. written_to (BuildBuf opts) pre = [] \<and>
     RunBuild w opts =
       (case ImageBuild w body options of
          Inl err \<Rightarrow> (Some (WithMessage err ''docker build''), pre)
        | Inr src \<Rightarrow>
            (fst (streamDockerMessages w (BuildBuf opts) src),
             pre @ snd (streamDockerMessages w (BuildBuf opts) src) @ [CloseBody]))"
  using assms
  by (auto simp: RunBuild_def Let_def errors_Wrap_def streamDockerMessages_def split_beta
      relay_not_build_call split: sum.splits)

lemma RunPush_ImagePushCall:
  assumes "ImagePushCall ref' options \<in> set (snd (RunPush w ref out))"
  shows "\<exists>pre. written_to out pre = [] \<and>
     RunPush w ref out =
       (case ImagePush w ref' options of
          Inl err \<Rightarrow> (Some (WithMessage err ''pushing image to repository''), pre)
        | Inr src \<Rightarrow>
            (fst (streamDockerMessages w out src),
             pre @ snd (streamDockerMessages w out src) @ [CloseBody]))"
  using assms
  by (auto simp: RunPush_def Let_def errors_Wrap_def streamDockerMessages_def split_beta
      relay_not_push_call split: sum.splits)

text \<open>Once the credentials are read and the Dockerfile is open, the run is decided by the
  archiver and the daemon; the parser's error plays no part.\<close>

lemma RunBuild_archived:
  assumes "GetAllAuthConfigs w = Inr authConfigs"
    and "os_Open w (filepath_Join w (ContextDir opts) (Dockerfile opts)) = Inr f"
    and "GetDockerfileDependencies w (ContextDir opts) f = (paths, perr)"
    and "tarOpts = \<lparr>ChownOpts = Some \<lparr>UID = 0, GID = 0\<rparr>,
           IncludeFiles = map (\<lambda>path. TrimPrefix path (ContextDir opts)) paths @ [Dockerfile opts]\<rparr>"
    and "imageBuildOpts = \<lparr>Tags = [ImageName opts], ibo_Dockerfile = Dockerfile opts,
           ibo_BuildArgs = BuildArgs opts, AuthConfigs = authConfigs\<rparr>"
    and "pre = [AuthConfigsCall, OpenCall (filepath_Join w (ContextDir opts) (Dockerfile opts)),
           DependenciesCall (ContextDir opts) f, TarCall (ContextDir opts) tarOpts]"
  shows "RunBuild w opts =
     (case TarWithOptions w (ContextDir opts) tarOpts of
        Inl err \<Rightarrow> (Some (WithMessage err ''tar workspace''), pre)
      | Inr buildCtx \<Rightarrow>
          (case ImageBuild w buildCtx imageBuildOpts of
             Inl err \<Rightarrow>
               (Some (WithMessage err ''docker build''),
                pre @ [ImageBuildCall buildCtx imageBuildOpts])
           | Inr body \<Rightarrow>
               (fst (streamDockerMessages w (BuildBuf opts) body),
                pre @ [ImageBuildCall buildCtx imageBuildOpts]
                  @ snd (streamDockerMessages w (BuildBuf opts) body) @ [CloseBody])))"
  using assms
  by (simp add: RunBuild_def Let_def errors_Wrap_def split_beta split: sum.splits)

text \<open>The build request of the example run, whatever the daemon answers.\<close>

lemma sample_build_call:
  "GetAllAuthConfigs w = GetAllAuthConfigs sample_world \<Longrightarrow>
   filepath_Join w = filepath_Join sample_world \<Longrightarrow>
   os_Open w = os_Open sample_world \<Longrightarrow>
   GetDockerfileDependencies w = GetDockerfileDependencies sample_world \<Longrightarrow>
   TarWithOptions w = TarWithOptions sample_world \<Longrightarrow>
   ImageBuildCall
     [\<lparr>Name = ''/main.go'', Uid = 0, Gid = 0\<rparr>, \<lparr>Name = ''Dockerfile'', Uid = 0, Gid = 0\<rparr>]
     \<lparr>Tags = [''myimage''], ibo_Dockerfile = ''Dockerfile'',
      ibo_BuildArgs = [''VERSION'' \<mapsto> Some ''1'', ''HTTP_PROXY'' \<mapsto> None],
      AuthConfigs = [''gcr.io'' \<mapsto> IdentityToken ''t0'']\<rparr>
   \<in> set (snd (RunBuild w sample_opts))"
  by (simp add: RunBuild_def sample_world_def sample_opts_def walkArchiver_def
      TrimPrefix_def HasPrefix_def Let_def split_beta split: sum.splits)

section \<open>The claims\<close>

subsection \<open>A failing dependency parser\<close>

text \<open>
  C1. The claim: when the dependency parser returns an error, \<^verbatim>\<open>RunBuild\<close> fails with a
  wrapped error naming that step, and makes no build call. The source assigns the
  parser's error to \<^verbatim>\<open>err\<close> and overwrites it with the archiver's without a check. At
  the run below the parser returns no paths and the error "dockerfile parse error":
  \<^verbatim>\<open>RunBuild\<close> archives the Dockerfile alone, submits the build to the daemon, relays
  its messages and returns nil.
\<close>

theorem RunBuild_ignores_dependency_error:
  "GetDockerfileDependencies unparsed_world ''/ctx'' ''FROM scratch''
     = ([], Some (Err ''dockerfile parse error''))
   \<and> RunBuild unparsed_world sample_opts =
      (None,
       [AuthConfigsCall, OpenCall ''/ctx/Dockerfile'', DependenciesCall ''/ctx'' ''FROM scratch'',
        TarCall ''/ctx'' \<lparr>ChownOpts = Some \<lparr>UID = 0, GID = 0\<rparr>, IncludeFiles = [''Dockerfile'']\<rparr>,
        ImageBuildCall [\<lparr>Name = ''Dockerfile'', Uid = 0, Gid = 0\<rparr>]
          \<lparr>Tags = [''myimage''], ibo_Dockerfile = ''Dockerfile'',
           ibo_BuildArgs = [''VERSION'' \<mapsto> Some ''1'', ''HTTP_PROXY'' \<mapsto> None],
           AuthConfigs = [''gcr.io'' \<mapsto> IdentityToken ''t0'']\<rparr>,
        Write 2 ''Step 1/1 : FROM scratch'', Write 2 ''Successfully built'', CloseBody])"
  by (simp add: RunBuild_def unparsed_world_def sample_world_def sample_opts_def walkArchiver_def
      TrimPrefix_def HasPrefix_def streamDockerMessages_def Let_def)

subsection \<open>Dependency paths outside the context directory\<close>

text \<open>
  C2, as amended. \<^verbatim>\<open>RunBuild\<close> makes no check of its own on where a dependency path
  lies. Once the credentials are read and the Dockerfile is open: a path that does not
  start with the context directory is handed to the archiver unchanged; when the archiver
  returns an error, \<^verbatim>\<open>RunBuild\<close> returns it wrapped as "tar workspace" and makes no
  daemon call; when the archiver returns an archive, the build is submitted to the daemon
  with that archive.
\<close>

theorem RunBuild_context_assembly:
  assumes "GetAllAuthConfigs w = Inr authConfigs"
    and "os_Open w (filepath_Join w (ContextDir opts) (Dockerfile opts)) = Inr f"
    and "GetDockerfileDependencies w (ContextDir opts) f = (paths, perr)"
    and "tarOpts = \<lparr>ChownOpts = Some \<lparr>UID = 0, GID = 0\<rparr>,
           IncludeFiles = map (\<lambda>path. TrimPrefix path (ContextDir opts)) paths @ [Dockerfile opts]\<rparr>"
  shows "(\<forall>path \<in> set paths. \<not> HasPrefix path (ContextDir opts) \<longrightarrow>
            path \<in> set (IncludeFiles tarOpts))
     \<and> TarCall (ContextDir opts) tarOpts \<in> set (snd (RunBuild w opts))
     \<and> (\<forall>err. TarWithOptions w (ContextDir opts) tarOpts = Inl err \<longrightarrow>
           fst (RunBuild w opts) = Some (WithMessage err ''tar workspace'')
           \<and> filter isDaemonCall (snd (RunBuild w opts)) = [])
     \<and> (\<forall>buildCtx. TarWithOptions w (ContextDir opts) tarOpts = Inr buildCtx \<longrightarrow>
           filter isDaemonCall (snd (RunBuild w opts)) =
             [ImageBuildCall buildCtx
                \<lparr>Tags = [ImageName opts], ibo_Dockerfile = Dockerfile opts,
                 ibo_BuildArgs = BuildArgs opts, AuthConfigs = authConfigs\<rparr>])"
proof -
  note run = RunBuild_archived [OF assms refl refl]
  have 1: "\<forall>path \<in> set paths. \<not> HasPrefix path (ContextDir opts) \<longrightarrow>
            path \<in> set (IncludeFiles tarOpts)"
  proof (intro ballI impI)
    fix path
    assume "path \<in> set paths" and "\<not> HasPrefix path (ContextDir opts)"
    then have "path \<in> (\<lambda>path. TrimPrefix path (ContextDir opts)) ` set paths"
      using TrimPrefix_other [of path "ContextDir opts"] by force
    then show "path \<in> set (IncludeFiles tarOpts)"
      by (simp add: assms(4))
  qed
  have 2: "TarCall (ContextDir opts) tarOpts \<in> set (snd (RunBuild w opts))"
    by (simp add: run split: sum.splits)
  have 3: "\<forall>err. TarWithOptions w (ContextDir opts) tarOpts = Inl err \<longrightarrow>
           fst (RunBuild w opts) = Some (WithMessage err ''tar workspace'')
           \<and> filter isDaemonCall (snd (RunBuild w opts)) = []"
    by (simp add: run)
  have 4: "\<forall>buildCtx. TarWithOptions w (ContextDir opts) tarOpts = Inr buildCtx \<longrightarrow>
           filter isDaemonCall (snd (RunBuild w opts)) =
             [ImageBuildCall buildCtx
                \<lparr>Tags = [ImageName opts], ibo_Dockerfile = Dockerfile opts,
                 ibo_BuildArgs = BuildArgs opts, AuthConfigs = authConfigs\<rparr>]"
    by (simp add: run streamDockerMessages_def relay_no_daemon_call split: sum.splits)
  from 1 2 3 4 show ?thesis by blast
qed

theorem RunBuild_context_assembly_witness:
  "GetAllAuthConfigs outside_world = Inr [''gcr.io'' \<mapsto> IdentityToken ''t0'']
   \<and> os_Open outside_world
        (filepath_Join outside_world (ContextDir sample_opts) (Dockerfile sample_opts))
       = Inr ''FROM scratch''
   \<and> GetDockerfileDependencies outside_world (ContextDir sample_opts) ''FROM scratch''
       = ([''/etc/passwd''], None)
   \<and> \<not> HasPrefix ''/etc/passwd'' (ContextDir sample_opts)
   \<and> ''/etc/passwd'' \<in> set [''/etc/passwd'', ''Dockerfile'']
   \<and> TarWithOptions outside_world (ContextDir sample_opts)
        \<lparr>ChownOpts = Some \<lparr>UID = 0, GID = 0\<rparr>, IncludeFiles = [''/etc/passwd'', ''Dockerfile'']\<rparr>
       = Inr [\<lparr>Name = ''Dockerfile'', Uid = 0, Gid = 0\<rparr>]
   \<and> filter isDaemonCall (snd (RunBuild outside_world sample_opts)) =
        [ImageBuildCall [\<lparr>Name = ''Dockerfile'', Uid = 0, Gid = 0\<rparr>]
          \<lparr>Tags = [''myimage''], ibo_Dockerfile = ''Dockerfile'',
           ibo_BuildArgs = [''VERSION'' \<mapsto> Some ''1'', ''HTTP_PROXY'' \<mapsto> None],
           AuthConfigs = [''gcr.io'' \<mapsto> IdentityToken ''t0'']\<rparr>]
   \<and> TarWithOptions tarless_world (ContextDir sample_opts)
        \<lparr>ChownOpts = Some \<lparr>UID = 0, GID = 0\<rparr>, IncludeFiles = [''/main.go'', ''Dockerfile'']\<rparr>
       = Inl (Err ''illegal exclusion pattern'')
   \<and> fst (RunBuild tarless_world sample_opts)
       = Some (WithMessage (Err ''illegal exclusion pattern'') ''tar workspace'')
   \<and> filter isDaemonCall (snd (RunBuild tarless_world sample_opts)) = []"
proof -
  have a: "GetAllAuthConfigs outside_world = Inr [''gcr.io'' \<mapsto> IdentityToken ''t0'']"
    and a': "GetAllAuthConfigs tarless_world = Inr [''gcr.io'' \<mapsto> IdentityToken ''t0'']"
    by (simp_all add: outside_world_def tarless_world_def sample_world_def)
  have b: "os_Open outside_world
        (filepath_Join outside_world (ContextDir sample_opts) (Dockerfile sample_opts))
       = Inr ''FROM scratch''"
    and b': "os_Open tarless_world
        (filepath_Join tarless_world (ContextDir sample_opts) (Dockerfile sample_opts))
       = Inr ''FROM scratch''"
    by (simp_all add: outside_world_def tarless_world_def sample_world_def sample_opts_def)
  have c: "GetDockerfileDependencies outside_world (ContextDir sample_opts) ''FROM scratch''
       = ([''/etc/passwd''], None)"
    and c': "GetDockerfileDependencies tarless_world (ContextDir sample_opts) ''FROM scratch''
       = ([''/ctx/main.go''], None)"
    by (simp_all add: outside_world_def tarless_world_def sample_world_def)
  have d: "\<lparr>ChownOpts = Some \<lparr>UID = 0, GID = 0\<rparr>, IncludeFiles = [''/etc/passwd'', ''Dockerfile'']\<rparr>
      = \<lparr>ChownOpts = Some \<lparr>UID = 0, GID = 0\<rparr>,
         IncludeFiles = map (\<lambda>path. TrimPrefix path (ContextDir sample_opts)) [''/etc/passwd'']
                          @ [Dockerfile sample_opts]\<rparr>"
    and d': "\<lparr>ChownOpts = Some \<lparr>UID = 0, GID = 0\<rparr>, IncludeFiles = [''/main.go'', ''Dockerfile'']\<rparr>
      = \<lparr>ChownOpts = Some \<lparr>UID = 0, GID = 0\<rparr>,
         IncludeFiles = map (\<lambda>path. TrimPrefix path (ContextDir sample_opts)) [''/ctx/main.go'']
                          @ [Dockerfile sample_opts]\<rparr>"
    by (simp_all add: sample_opts_def TrimPrefix_def HasPrefix_def)
  have e: "TarWithOptions outside_world (ContextDir sample_opts)
        \<lparr>ChownOpts = Some \<lparr>UID = 0, GID = 0\<rparr>, IncludeFiles = [''/etc/passwd'', ''Dockerfile'']\<rparr>
       = Inr [\<lparr>Name = ''Dockerfile'', Uid = 0, Gid = 0\<rparr>]"
    by (simp add: outside_world_def sample_opts_def walkArchiver_def TrimPrefix_def HasPrefix_def)
  have e': "TarWithOptions tarless_world (ContextDir sample_opts)
        \<lparr>ChownOpts = Some \<lparr>UID = 0, GID = 0\<rparr>, IncludeFiles = [''/main.go'', ''Dockerfile'']\<rparr>
       = Inl (Err ''illegal exclusion pattern'')"
    by (simp add: tarless_world_def)
  have h: "\<not> HasPrefix ''/etc/passwd'' (ContextDir sample_opts)"
    by (simp add: HasPrefix_def sample_opts_def)
  from RunBuild_context_assembly [OF a b c d] RunBuild_context_assembly [OF a' b' c' d']
    a b c e e' h
  show ?thesis
    by (simp add: sample_opts_def)
qed

text \<open>
  C2, as stated, fails. The parser lists \<^verbatim>\<open>/etc/passwd\<close> for the context directory
  \<^verbatim>\<open>/ctx\<close>, and the archiver skips what it does not find under the context directory.
  \<^verbatim>\<open>RunBuild\<close> returns nil, and the archive it sends to the daemon holds the Dockerfile
  alone: the path is dropped and no error is reported.
\<close>

theorem RunBuild_outside_path_counterexample:
  "GetDockerfileDependencies outside_world ''/ctx'' ''FROM scratch'' = ([''/etc/passwd''], None)
   \<and> \<not> HasPrefix ''/etc/passwd'' ''/ctx''
   \<and> RunBuild outside_world sample_opts =
      (None,
       [AuthConfigsCall, OpenCall ''/ctx/Dockerfile'', DependenciesCall ''/ctx'' ''FROM scratch'',
        TarCall ''/ctx'' \<lparr>ChownOpts = Some \<lparr>UID = 0, GID = 0\<rparr>,
                         IncludeFiles = [''/etc/passwd'', ''Dockerfile'']\<rparr>,
        ImageBuildCall [\<lparr>Name = ''Dockerfile'', Uid = 0, Gid = 0\<rparr>]
          \<lparr>Tags = [''myimage''], ibo_Dockerfile = ''Dockerfile'',
           ibo_BuildArgs = [''VERSION'' \<mapsto> Some ''1'', ''HTTP_PROXY'' \<mapsto> None],
           AuthConfigs = [''gcr.io'' \<mapsto> IdentityToken ''t0'']\<rparr>,
        Write 2 ''Step 1/1 : FROM scratch'', Write 2 ''Successfully built'', CloseBody])"
  by (simp add: RunBuild_def outside_world_def sample_world_def sample_opts_def walkArchiver_def
      TrimPrefix_def HasPrefix_def streamDockerMessages_def Let_def)

subsection \<open>What the archive is asked to hold\<close>




subsection \<open>A terminal error in the daemon's stream\<close>

text \<open>
  C4. When the stream that the daemon returns for a build or a push holds a terminal error
  message after any number of progress messages, the relay returns that error and
  \<^verbatim>\<open>RunBuild\<close>, respectively \<^verbatim>\<open>RunPush\<close>, returns it as it is; the sink has received
  the text of every progress message that came before the error, in order, and nothing
  that came after it.
\<close>

theorem terminal_error_is_result:
  "streamDockerMessages w dst (progress ps @ ErrorMessage m # rest)
     = (Some (JSONError m), map (\<lambda>p. Write dst (Display w p)) (progress ps))
   \<and> (ImageBuildCall body options \<in> set (snd (RunBuild w opts))
        \<and> ImageBuild w body options = Inr (progress ps @ ErrorMessage m # rest) \<longrightarrow>
      fst (RunBuild w opts) = Some (JSONError m)
        \<and> written_to (BuildBuf opts) (snd (RunBuild w opts)) = map (Display w) (progress ps))
   \<and> (ImagePushCall ref' options' \<in> set (snd (RunPush w ref out))
        \<and> ImagePush w ref' options' = Inr (progress ps @ ErrorMessage m # rest) \<longrightarrow>
      fst (RunPush w ref out) = Some (JSONError m)
        \<and> written_to out (snd (RunPush w ref out)) = map (Display w) (progress ps))"
proof (intro conjI impI)
  show r: "\<And>dst. streamDockerMessages w dst (progress ps @ ErrorMessage m # rest)
     = (Some (JSONError m), map (\<lambda>p. Write dst (Display w p)) (progress ps))"
    by (simp add: streamDockerMessages_def relay_error)
  {
    assume a: "ImageBuildCall body options \<in> set (snd (RunBuild w opts))
        \<and> ImageBuild w body options = Inr (progress ps @ ErrorMessage m # rest)"
    then obtain pre where pre: "written_to (BuildBuf opts) pre = []"
      and run: "RunBuild w opts =
        (fst (streamDockerMessages w (BuildBuf opts) (progress ps @ ErrorMessage m # rest)),
         pre @ snd (streamDockerMessages w (BuildBuf opts) (progress ps @ ErrorMessage m # rest))
             @ [CloseBody])"
      using RunBuild_ImageBuildCall [of body options w opts] by auto
    from run show "fst (RunBuild w opts) = Some (JSONError m)"
      by (simp add: r)
    from run pre show "written_to (BuildBuf opts) (snd (RunBuild w opts)) = map (Display w) (progress ps)"
      by (simp add: r written_to_append written_to_writes)
  }
  {
    assume a: "ImagePushCall ref' options' \<in> set (snd (RunPush w ref out))
        \<and> ImagePush w ref' options' = Inr (progress ps @ ErrorMessage m # rest)"
    then obtain pre where pre: "written_to out pre = []"
      and run: "RunPush w ref out =
        (fst (streamDockerMessages w out (progress ps @ ErrorMessage m # rest)),
         pre @ snd (streamDockerMessages w out (progress ps @ ErrorMessage m # rest))
             @ [CloseBody])"
      using RunPush_ImagePushCall [of ref' options' w ref out] by auto
    from run show "fst (RunPush w ref out) = Some (JSONError m)"
      by (simp add: r)
    from run pre show "written_to out (snd (RunPush w ref out)) = map (Display w) (progress ps)"
      by (simp add: r written_to_append written_to_writes)
  }
qed

theorem terminal_error_is_result_witness:
  "ImageBuildCall
     [\<lparr>Name = ''/main.go'', Uid = 0, Gid = 0\<rparr>, \<lparr>Name = ''Dockerfile'', Uid = 0, Gid = 0\<rparr>]
     \<lparr>Tags = [''myimage''], ibo_Dockerfile = ''Dockerfile'',
      ibo_BuildArgs = [''VERSION'' \<mapsto> Some ''1'', ''HTTP_PROXY'' \<mapsto> None],
      AuthConfigs = [''gcr.io'' \<mapsto> IdentityToken ''t0'']\<rparr>
     \<in> set (snd (RunBuild failing_world sample_opts))
   \<and> fst (RunBuild failing_world sample_opts) = Some (JSONError ''COPY failed'')
   \<and> written_to 2 (snd (RunBuild failing_world sample_opts))
        = [''Step 1/2 : FROM scratch'', ''Step 2/2 : COPY main.go /'']
   \<and> ImagePushCall ''myimage'' \<lparr>RegistryAuth = ''e30=''\<rparr>
        \<in> set (snd (RunPush failing_world ''myimage'' 7))
   \<and> fst (RunPush failing_world ''myimage'' 7) = Some (JSONError ''unauthorized'')
   \<and> written_to 7 (snd (RunPush failing_world ''myimage'' 7)) = [''Preparing'']"
proof -
  let ?body = "[\<lparr>Name = ''/main.go'', Uid = 0, Gid = 0\<rparr>, \<lparr>Name = ''Dockerfile'', Uid = 0, Gid = 0\<rparr>]"
  let ?options = "\<lparr>Tags = [''myimage''], ibo_Dockerfile = ''Dockerfile'',
      ibo_BuildArgs = [''VERSION'' \<mapsto> Some ''1'', ''HTTP_PROXY'' \<mapsto> None],
      AuthConfigs = [''gcr.io'' \<mapsto> IdentityToken ''t0'']\<rparr>"
  have b: "ImageBuildCall ?body ?options \<in> set (snd (RunBuild failing_world sample_opts))"
    by (rule sample_build_call) (simp_all add: failing_world_def)
  have p: "ImagePushCall ''myimage'' \<lparr>RegistryAuth = ''e30=''\<rparr>
        \<in> set (snd (RunPush failing_world ''myimage'' 7))"
    by (simp add: RunPush_def failing_world_def sample_world_def Let_def split_beta)
  have sb: "ImageBuild failing_world ?body ?options =
      Inr (progress [(''1'', ''Step 1/2 : FROM scratch''), (''2'', ''Step 2/2 : COPY main.go /'')]
               @ ErrorMessage ''COPY failed'' # [Progress ''3'' ''Successfully built''])"
    by (simp add: failing_world_def)
  have sp: "ImagePush failing_world ''myimage'' \<lparr>RegistryAuth = ''e30=''\<rparr> =
      Inr (progress [(''1'', ''Preparing'')]
               @ ErrorMessage ''unauthorized'' # [Progress ''2'' ''Pushed''])"
    by (simp add: failing_world_def)
  have d: "Display failing_world = (\<lambda>m. case m of Progress i t \<Rightarrow> t | ErrorMessage e \<Rightarrow> e)"
    by (simp add: failing_world_def sample_world_def)
  from b sb p sp
    terminal_error_is_result [of failing_world 0
      "[(''1'', ''Step 1/2 : FROM scratch''), (''2'', ''Step 2/2 : COPY main.go /'')]"
      "''COPY failed''" "[Progress ''3'' ''Successfully built'']" ?body ?options sample_opts
      "''none''" "\<lparr>RegistryAuth = ''none''\<rparr>" "''none''" 0]
    terminal_error_is_result [of failing_world 0
      "[(''1'', ''Preparing'')]" "''unauthorized''" "[Progress ''2'' ''Pushed'']"
      "[]" ?options sample_opts
      "''myimage''" "\<lparr>RegistryAuth = ''e30=''\<rparr>" "''myimage''" 7]
  show ?thesis
    by (simp add: d sample_opts_def)
qed

subsection \<open>Digest of an untagged reference\<close>

text \<open>
  C5. When the daemon's answer to the list query holds an image with the repo tag
  \<^verbatim>\<open>myimage:latest\<close>, \<^verbatim>\<open>Digest\<close> of the reference \<^verbatim>\<open>myimage\<close> returns the
  identifier of the first such image and a nil error; when no listed image has that exact
  tag, it returns the empty string and a nil error.
\<close>

theorem Digest_myimage:
  "ImageList w \<lparr>Filters = [(''reference'', ''myimage:latest'')]\<rparr> = Inr imageList \<Longrightarrow>
   ((\<exists>img \<in> set imageList. ''myimage:latest'' \<in> set (RepoTags img)) \<longrightarrow>
      (\<exists>img. List.find (\<lambda>img. ''myimage:latest'' \<in> set (RepoTags img)) imageList = Some img
             \<and> img \<in> set imageList \<and> ''myimage:latest'' \<in> set (RepoTags img)
             \<and> fst (Digest w ''myimage'') = (ID img, None))) \<and>
   ((\<forall>img \<in> set imageList. ''myimage:latest'' \<notin> set (RepoTags img)) \<longrightarrow>
      fst (Digest w ''myimage'') = ([], None))"
proof (intro conjI impI)
  assume l: "ImageList w \<lparr>Filters = [(''reference'', ''myimage:latest'')]\<rparr> = Inr imageList"
  then have r: "fst (Digest w ''myimage'') =
     (case List.find (\<lambda>img. ''myimage:latest'' \<in> set (RepoTags img)) imageList of
        Some img \<Rightarrow> (ID img, None) | None \<Rightarrow> ([], None))"
    using Digest_result [of w "''myimage''" imageList] by simp
  {
    assume "\<exists>img \<in> set imageList. ''myimage:latest'' \<in> set (RepoTags img)"
    then obtain img where
      f: "List.find (\<lambda>img. ''myimage:latest'' \<in> set (RepoTags img)) imageList = Some img"
      by (cases "List.find (\<lambda>img. ''myimage:latest'' \<in> set (RepoTags img)) imageList")
         (auto simp: find_None_iff)
    then have "img \<in> set imageList \<and> ''myimage:latest'' \<in> set (RepoTags img)"
      by (auto simp: find_Some_iff)
    with f r show "\<exists>img. List.find (\<lambda>img. ''myimage:latest'' \<in> set (RepoTags img)) imageList = Some img
             \<and> img \<in> set imageList \<and> ''myimage:latest'' \<in> set (RepoTags img)
             \<and> fst (Digest w ''myimage'') = (ID img, None)"
      by simp
  }
  {
    assume "\<forall>img \<in> set imageList. ''myimage:latest'' \<notin> set (RepoTags img)"
    then have "List.find (\<lambda>img. ''myimage:latest'' \<in> set (RepoTags img)) imageList = None"
      by (simp add: find_None_iff)
    with r show "fst (Digest w ''myimage'') = ([], None)" by simp
  }
qed


theorem Digest_myimage_witness:
  "ImageList sample_world \<lparr>Filters = [(''reference'', ''myimage:latest'')]\<rparr> = Inr sample_images
   \<and> (\<exists>img \<in> set sample_images. ''myimage:latest'' \<in> set (RepoTags img))
   \<and> fst (Digest sample_world ''myimage'') = (''sha256:2222'', None)
   \<and> ''myimage:latest'' \<notin> set (RepoTags (hd sample_images))
   \<and> fst (Digest (sample_world\<lparr>ImageList := \<lambda>options. Inr [hd sample_images]\<rparr>) ''myimage'')
       = ([], None)"
  using Digest_myimage [of sample_world sample_images]
    Digest_myimage [of "sample_world\<lparr>ImageList := \<lambda>options. Inr [hd sample_images]\<rparr>"
      "[hd sample_images]"]
  by (simp add: sample_world_def sample_images_def)

subsection \<open>The filter of Digest\<close>



subsection \<open>Failing credentials\<close>

text \<open>
  C7. When \<^verbatim>\<open>GetAllAuthConfigs\<close> fails, \<^verbatim>\<open>RunBuild\<close> returns the error wrapped as
  "read auth configs" and its log holds no build or push request; when the credentials for
  the reference fail, \<^verbatim>\<open>RunPush\<close> returns the error wrapped as "getting auth config for"
  followed by the reference, and its log holds no build or push request.
\<close>

theorem auth_failure_aborts:
  "(GetAllAuthConfigs w = Inl err \<longrightarrow>
      fst (RunBuild w opts) = Some (WithMessage err ''read auth configs'')
      \<and> Error (WithMessage err ''read auth configs'') = ''read auth configs: '' @ Error err
      \<and> filter isDaemonCall (snd (RunBuild w opts)) = [])
   \<and> (encodedRegistryAuth w ref = Inl err \<longrightarrow>
      fst (RunPush w ref out) = Some (WithMessage err (''getting auth config for '' @ ref))
      \<and> Error (WithMessage err (''getting auth config for '' @ ref))
           = ''getting auth config for '' @ ref @ '': '' @ Error err
      \<and> filter isDaemonCall (snd (RunPush w ref out)) = [])"
  by (simp add: RunBuild_def RunPush_def errors_Wrap_def)

theorem auth_failure_aborts_witness:
  "GetAllAuthConfigs (sample_world\<lparr>GetAllAuthConfigs := Inl (Err ''credential store unreachable'')\<rparr>)
     = Inl (Err ''credential store unreachable'')
   \<and> fst (RunBuild (sample_world\<lparr>GetAllAuthConfigs := Inl (Err ''credential store unreachable'')\<rparr>)
            sample_opts)
       = Some (WithMessage (Err ''credential store unreachable'') ''read auth configs'')
   \<and> filter isDaemonCall
        (snd (RunBuild (sample_world\<lparr>GetAllAuthConfigs := Inl (Err ''credential store unreachable'')\<rparr>)
            sample_opts)) = []
   \<and> encodedRegistryAuth
        (sample_world\<lparr>encodedRegistryAuth := \<lambda>ref. Inl (Err ''credential store unreachable'')\<rparr>)
        ''gcr.io/p/myimage'' = Inl (Err ''credential store unreachable'')
   \<and> fst (RunPush
        (sample_world\<lparr>encodedRegistryAuth := \<lambda>ref. Inl (Err ''credential store unreachable'')\<rparr>)
        ''gcr.io/p/myimage'' 7)
       = Some (WithMessage (Err ''credential store unreachable'')
                 ''getting auth config for gcr.io/p/myimage'')
   \<and> filter isDaemonCall
        (snd (RunPush
          (sample_world\<lparr>encodedRegistryAuth := \<lambda>ref. Inl (Err ''credential store unreachable'')\<rparr>)
          ''gcr.io/p/myimage'' 7)) = []"
  using
    auth_failure_aborts
      [of "sample_world\<lparr>GetAllAuthConfigs := Inl (Err ''credential store unreachable'')\<rparr>"
          "Err ''credential store unreachable''" sample_opts "''none''" 0]
    auth_failure_aborts
      [of "sample_world\<lparr>encodedRegistryAuth := \<lambda>ref. Inl (Err ''credential store unreachable'')\<rparr>"
          "Err ''credential store unreachable''" sample_opts "''gcr.io/p/myimage''" 7]
  by (simp add: sample_world_def)

subsection \<open>A failing list query\<close>

text \<open>
  C8. When the daemon's list query fails, \<^verbatim>\<open>Digest\<close> returns the empty string and the
  error wrapped as "getting image id" (its text names the step, its cause is the daemon's
  error). This differs from the result for an index without a match, which is the empty
  string and a nil error.
\<close>

theorem Digest_list_failure:
  "ImageList w \<lparr>Filters = [(''reference'', ref @ '':latest'')]\<rparr> = Inl err \<Longrightarrow>
   fst (Digest w ref) = ([], Some (WithMessage err ''getting image id''))
   \<and> Error (WithMessage err ''getting image id'') = ''getting image id: '' @ Error err
   \<and> Cause (WithMessage err ''getting image id'') = Cause err
   \<and> fst (Digest w ref) \<noteq> ([], None)
   \<and> fst (Digest (w\<lparr>ImageList := \<lambda>options. Inr []\<rparr>) ref) = ([], None)"
  by (simp add: Digest_def errors_Wrap_def)

theorem Digest_list_failure_witness:
  "ImageList (sample_world\<lparr>ImageList := \<lambda>options. Inl (Err ''connection refused'')\<rparr>)
      \<lparr>Filters = [(''reference'', ''myimage:latest'')]\<rparr> = Inl (Err ''connection refused'')
   \<and> fst (Digest (sample_world\<lparr>ImageList := \<lambda>options. Inl (Err ''connection refused'')\<rparr>) ''myimage'')
       = ([], Some (WithMessage (Err ''connection refused'') ''getting image id''))
   \<and> Error (WithMessage (Err ''connection refused'') ''getting image id'')
       = ''getting image id: connection refused''"
  using Digest_list_failure
    [of "sample_world\<lparr>ImageList := \<lambda>options. Inl (Err ''connection refused'')\<rparr>"
        "''myimage''" "Err ''connection refused''"]
  by simp

subsection \<open>Repeated lookups\<close>

text \<open>
  C9. \<^verbatim>\<open>Digest\<close> reads the world through its list query alone. A second lookup of the
  same reference, in a world where that query has the same answer as in the first, returns
  the same result.
\<close>

theorem Digest_idempotent:
  "ImageList w' \<lparr>Filters = [(''reference'', ref @ '':latest'')]\<rparr>
     = ImageList w \<lparr>Filters = [(''reference'', ref @ '':latest'')]\<rparr> \<Longrightarrow>
   Digest w' ref = Digest w ref"
  by (simp add: Digest_def)

theorem Digest_idempotent_witness:
  "ImageList (sample_world\<lparr>ImagePush := \<lambda>ref options. Inl (Err ''denied'')\<rparr>)
       \<lparr>Filters = [(''reference'', ''myimage:latest'')]\<rparr>
     = ImageList sample_world \<lparr>Filters = [(''reference'', ''myimage:latest'')]\<rparr>
   \<and> Digest (sample_world\<lparr>ImagePush := \<lambda>ref options. Inl (Err ''denied'')\<rparr>) ''myimage''
     = Digest sample_world ''myimage''
   \<and> fst (Digest sample_world ''myimage'') = (''sha256:2222'', None)"
proof -
  have "Digest (sample_world\<lparr>ImagePush := \<lambda>ref options. Inl (Err ''denied'')\<rparr>) ''myimage''
     = Digest sample_world ''myimage''"
    using Digest_idempotent [of "sample_world\<lparr>ImagePush := \<lambda>ref options. Inl (Err ''denied'')\<rparr>"
       "''myimage''" sample_world]
    by simp
  moreover have "fst (Digest sample_world ''myimage'') = (''sha256:2222'', None)"
    by (simp add: Digest_def sample_world_def sample_images_def)
  ultimately show ?thesis by simp
qed

subsection \<open>The build request\<close>

text \<open>
  C10. Every build request that \<^verbatim>\<open>RunBuild\<close> submits to the daemon has exactly one tag,
  the image name of the build options, and the Dockerfile path and the build arguments of
  the build options, unchanged.
\<close>

theorem RunBuild_request:
  "ImageBuildCall body options \<in> set (snd (RunBuild w opts)) \<Longrightarrow>
   Tags options = [ImageName opts]
   \<and> ibo_Dockerfile options = Dockerfile opts
   \<and> ibo_BuildArgs options = BuildArgs opts"
  by (auto simp: RunBuild_def Let_def split_beta streamDockerMessages_def relay_not_build_call
      split: sum.splits)

theorem RunBuild_request_witness:
  "ImageBuildCall
     [\<lparr>Name = ''/main.go'', Uid = 0, Gid = 0\<rparr>, \<lparr>Name = ''Dockerfile'', Uid = 0, Gid = 0\<rparr>]
     \<lparr>Tags = [''myimage''], ibo_Dockerfile = ''Dockerfile'',
      ibo_BuildArgs = [''VERSION'' \<mapsto> Some ''1'', ''HTTP_PROXY'' \<mapsto> None],
      AuthConfigs = [''gcr.io'' \<mapsto> IdentityToken ''t0'']\<rparr>
     \<in> set (snd (RunBuild sample_world sample_opts))
   \<and> [''myimage''] = [ImageName sample_opts]
   \<and> ''Dockerfile'' = Dockerfile sample_opts
   \<and> [''VERSION'' \<mapsto> Some ''1'', ''HTTP_PROXY'' \<mapsto> None] = BuildArgs sample_opts"
proof -
  have b: "ImageBuildCall
     [\<lparr>Name = ''/main.go'', Uid = 0, Gid = 0\<rparr>, \<lparr>Name = ''Dockerfile'', Uid = 0, Gid = 0\<rparr>]
     \<lparr>Tags = [''myimage''], ibo_Dockerfile = ''Dockerfile'',
      ibo_BuildArgs = [''VERSION'' \<mapsto> Some ''1'', ''HTTP_PROXY'' \<mapsto> None],
      AuthConfigs = [''gcr.io'' \<mapsto> IdentityToken ''t0'']\<rparr>
     \<in> set (snd (RunBuild sample_world sample_opts))"
    by (rule sample_build_call) simp_all
  from RunBuild_request [OF b] b show ?thesis by simp
qed

end
